theory Spec2Isabelle
  imports Complex_Main
begin

section \<open>Values, errors and effects\<close>

text \<open>
  Request bodies (parsed JSON) and the homeserver configuration (parsed YAML) are Python
  values: \<open>None\<close>, booleans, integers, floats, strings, lists and dicts. A dict is an
  association list read with \<open>map_of\<close>.
\<close>

datatype json =
    JNull
  | JBool bool
  | JInt int
  | JFloat real
  | JStr string
  | JList "json list"
  | JDict "(string \<times> json) list"

type_synonym JsonDict = "(string \<times> json) list"

text \<open>
  The exceptions the two modules raise or catch. The error code of a \<open>SynapseError\<close> is
  \<open>None\<close> where the call site passes none (the class's default applies).
  \<open>InvalidClientCredentialsError\<close> stands for that class and its subclasses, which is what
  \<open>except InvalidClientCredentialsError\<close> catches. \<open>ConfigError\<close> carries its message and
  the optional configuration path.
\<close>

datatype Codes = BAD_JSON | OtherCode string

datatype error =
    SynapseError nat string "Codes option"
  | AuthError nat string
  | NotFoundError string
  | InvalidClientCredentialsError string
  | ConfigError string "string list option"
  | OtherException string

text \<open>\<open>k in d\<close>, \<open>d.get(k, default)\<close> and \<open>d.get(k)\<close> of a Python dict.\<close>

definition dict_in :: "string \<Rightarrow> JsonDict \<Rightarrow> bool" where
  "dict_in k d = (map_of d k \<noteq> None)"

definition dict_get :: "JsonDict \<Rightarrow> string \<Rightarrow> json \<Rightarrow> json" where
  "dict_get d k dflt = (case map_of d k of None \<Rightarrow> dflt | Some v \<Rightarrow> v)"


text \<open>\<open>d[k]\<close>, which raises \<open>KeyError\<close> on a missing key.\<close>

definition dict_item :: "JsonDict \<Rightarrow> string \<Rightarrow> error + json" where
  "dict_item d k = (case map_of d k of None \<Rightarrow> Inl (OtherException ''KeyError'') | Some v \<Rightarrow> Inr v)"

text \<open>Python truthiness, as \<open>if x:\<close> and \<open>not x\<close> read a value.\<close>

fun truthy :: "json \<Rightarrow> bool" where
  "truthy JNull = False"
| "truthy (JBool b) = b"
| "truthy (JInt n) = (n \<noteq> 0)"
| "truthy (JFloat x) = (x \<noteq> 0)"
| "truthy (JStr s) = (s \<noteq> [])"
| "truthy (JList xs) = (xs \<noteq> [])"
| "truthy (JDict d) = (d \<noteq> [])"

text \<open>
  A coroutine of a servlet runs against the shared homeserver state \<open>'w\<close> (the stores behind
  the collaborators): it returns a value or raises, and leaves a new state.
\<close>

type_synonym ('w, 'a) io = "'w \<Rightarrow> (error + 'a) \<times> 'w"

definition io_return :: "'a \<Rightarrow> ('w, 'a) io" where
  "io_return a w = (Inr a, w)"

definition io_raise :: "error \<Rightarrow> ('w, 'a) io" where
  "io_raise e w = (Inl e, w)"

definition io_lift :: "error + 'a \<Rightarrow> ('w, 'a) io" where
  "io_lift r w = (r, w)"

definition io_bind :: "('w, 'a) io \<Rightarrow> ('a \<Rightarrow> ('w, 'b) io) \<Rightarrow> ('w, 'b) io" where
  "io_bind m f w = (case m w of (Inl e, w') \<Rightarrow> (Inl e, w') | (Inr a, w') \<Rightarrow> f a w')"



section \<open>The directory servlets (synapse/rest/client/v1/directory.py)\<close>

datatype RoomAlias = RoomAlias string

datatype UserID = UserID string

record ApplicationService =
  id' :: string
  url :: string

record Requester =
  user :: UserID
  app_service :: "ApplicationService option"

record Room =
  is_public :: bool

text \<open>
  The collaborators a servlet holds (\<open>hs.get_datastore()\<close>, \<open>hs.get_auth()\<close>,
  \<open>hs.get_directory_handler()\<close>) and the two helpers it imports
  (\<open>parse_json_object_from_request\<close>, \<open>RoomAlias.from_string\<close>). None of them is defined in
  these modules, so each is a parameter: it may raise, and the stateful ones read and
  change the homeserver state. The request is opaque to the servlets (\<open>'req\<close>).
\<close>

record ('req, 'w) HomeServer =
  parse_json_object_from_request :: "'req \<Rightarrow> error + JsonDict"
  from_string :: "string \<Rightarrow> error + RoomAlias"
  get_room :: "json \<Rightarrow> ('w, Room option) io"
  get_user_by_req :: "'req \<Rightarrow> ('w, Requester) io"
  get_appservice_by_req :: "'req \<Rightarrow> ('w, ApplicationService) io"
  is_server_admin :: "UserID \<Rightarrow> ('w, bool) io"
  get_association :: "RoomAlias \<Rightarrow> ('w, JsonDict) io"
  create_association :: "Requester \<Rightarrow> RoomAlias \<Rightarrow> json \<Rightarrow> json \<Rightarrow> ('w, unit) io"
  delete_association :: "Requester \<Rightarrow> RoomAlias \<Rightarrow> ('w, unit) io"
  delete_appservice_association :: "ApplicationService \<Rightarrow> RoomAlias \<Rightarrow> ('w, unit) io"
  edit_published_room_list :: "Requester \<Rightarrow> string \<Rightarrow> json \<Rightarrow> ('w, unit) io"
  edit_published_appservice_room_list ::
    "string \<Rightarrow> string \<Rightarrow> string \<Rightarrow> json \<Rightarrow> ('w, unit) io"

type_synonym response = "nat \<times> JsonDict"

subsection \<open>ClientDirectoryServer: /directory/room/<room_alias>\<close>

definition ClientDirectoryServer_on_GET ::
    "('req, 'w) HomeServer \<Rightarrow> 'req \<Rightarrow> string \<Rightarrow> ('w, response) io" where
  "ClientDirectoryServer_on_GET hs request room_alias =
     io_bind (io_lift (from_string hs room_alias)) (\<lambda>room_alias.
     io_bind (get_association hs room_alias) (\<lambda>res.
     io_return (200, res)))"

definition ClientDirectoryServer_on_PUT ::
    "('req, 'w) HomeServer \<Rightarrow> 'req \<Rightarrow> string \<Rightarrow> ('w, response) io" where
  \<open>ClientDirectoryServer_on_PUT hs request room_alias =
     io_bind (io_lift (from_string hs room_alias)) (\<lambda>room_alias.
     io_bind (io_lift (parse_json_object_from_request hs request)) (\<lambda>content.
     if \<not> dict_in ''room_id'' content
     then io_raise (SynapseError 400 ''Missing params: ["room_id"]'' (Some BAD_JSON))
     else
       io_bind (io_lift (dict_item content ''room_id'')) (\<lambda>room_id.
       io_bind (io_lift (if dict_in ''servers'' content
                         then dict_item content ''servers'' else Inr JNull)) (\<lambda>servers.
       io_bind (get_room hs room_id) (\<lambda>room.
       if room = None
       then io_raise (SynapseError 400 ''Room does not exist'' None)
       else
         io_bind (get_user_by_req hs request) (\<lambda>requester.
         io_bind (create_association hs requester room_alias room_id servers) (\<lambda>_.
         io_return (200, []))))))))\<close>


subsection \<open>ClientDirectoryListServer: /directory/list/room/<room_id>\<close>

definition ClientDirectoryListServer_on_GET ::
    "('req, 'w) HomeServer \<Rightarrow> 'req \<Rightarrow> string \<Rightarrow> ('w, response) io" where
  "ClientDirectoryListServer_on_GET hs request room_id =
     io_bind (get_room hs (JStr room_id)) (\<lambda>room.
     case room of
       None \<Rightarrow> io_raise (NotFoundError ''Unknown room'')
     | Some r \<Rightarrow>
         io_return (200, [(''visibility'',
                           JStr (if is_public r then ''public'' else ''private''))]))"

definition ClientDirectoryListServer_on_PUT ::
    "('req, 'w) HomeServer \<Rightarrow> 'req \<Rightarrow> string \<Rightarrow> ('w, response) io" where
  "ClientDirectoryListServer_on_PUT hs request room_id =
     io_bind (get_user_by_req hs request) (\<lambda>requester.
     io_bind (io_lift (parse_json_object_from_request hs request)) (\<lambda>content.
     let visibility = dict_get content ''visibility'' (JStr ''public'') in
     io_bind (edit_published_room_list hs requester room_id visibility) (\<lambda>_.
     io_return (200, []))))"

definition ClientDirectoryListServer_on_DELETE ::
    "('req, 'w) HomeServer \<Rightarrow> 'req \<Rightarrow> string \<Rightarrow> ('w, response) io" where
  "ClientDirectoryListServer_on_DELETE hs request room_id =
     io_bind (get_user_by_req hs request) (\<lambda>requester.
     io_bind (edit_published_room_list hs requester room_id (JStr ''private'')) (\<lambda>_.
     io_return (200, [])))"

subsection \<open>ClientAppserviceDirectoryListServer: /directory/list/appservice/<network_id>/<room_id>\<close>

definition edit_appservice_room_visibility ::
    "('req, 'w) HomeServer \<Rightarrow> 'req \<Rightarrow> string \<Rightarrow> string \<Rightarrow> json \<Rightarrow> ('w, response) io" where
  "edit_appservice_room_visibility hs request network_id room_id visibility =
     io_bind (get_user_by_req hs request) (\<lambda>requester.
     io_bind (is_server_admin hs (user requester)) (\<lambda>is_server_admin.
     io_bind
       (case app_service requester of
          Some a \<Rightarrow> io_return (id' a)
        | None \<Rightarrow>
            if is_server_admin \<and> visibility = JStr ''private''
            then io_return ''''
            else io_raise
              (AuthError 403 ''Only appservices can edit the appservice published room list''))
       (\<lambda>appservice_id.
     io_bind
       (edit_published_appservice_room_list hs appservice_id network_id room_id visibility)
       (\<lambda>_.
     io_return (200, [])))))"

definition ClientAppserviceDirectoryListServer_on_PUT ::
    "('req, 'w) HomeServer \<Rightarrow> 'req \<Rightarrow> string \<Rightarrow> string \<Rightarrow> ('w, response) io" where
  "ClientAppserviceDirectoryListServer_on_PUT hs request network_id room_id =
     io_bind (io_lift (parse_json_object_from_request hs request)) (\<lambda>content.
     let visibility = dict_get content ''visibility'' (JStr ''public'') in
     edit_appservice_room_visibility hs request network_id room_id visibility)"

definition ClientAppserviceDirectoryListServer_on_DELETE ::
    "('req, 'w) HomeServer \<Rightarrow> 'req \<Rightarrow> string \<Rightarrow> string \<Rightarrow> ('w, response) io" where
  "ClientAppserviceDirectoryListServer_on_DELETE hs request network_id room_id =
     edit_appservice_room_visibility hs request network_id room_id (JStr ''private'')"

section \<open>The account validity configuration (synapse/config/account_validity.py)\<close>

text \<open>
  Configuration loading raises or returns; there is no shared state. \<open>result_bind\<close> runs the
  next statement on the value of the previous one, unless that raised.
\<close>

definition result_bind :: "error + 'a \<Rightarrow> ('a \<Rightarrow> error + 'b) \<Rightarrow> error + 'b" where
  "result_bind r f = (case r of Inl e \<Rightarrow> Inl e | Inr a \<Rightarrow> f a)"




text \<open>
  What \<open>AccountValidityConfig\<close> inherits or imports and these modules do not define:
  \<open>Config.read_templates\<close>, \<open>Config.parse_duration\<close>, \<open>load_module\<close> and the attribute
  \<open>public_baseurl\<close> of the server configuration (a string or \<open>None\<close>). Templates and loaded
  modules are opaque (\<open>'t\<close>, \<open>'m\<close>).
\<close>

record ('t, 'm) Config =
  read_templates :: "string list \<Rightarrow> error + 't \<times> 't \<times> 't"
  parse_duration :: "json \<Rightarrow> error + int"
  load_module :: "JsonDict \<Rightarrow> string list \<Rightarrow> error + 'm"
  public_baseurl :: json

text \<open>
  The attributes \<open>read_config\<close> sets on \<open>self\<close>. An attribute that only the legacy branch
  assigns is \<open>None\<close> while unassigned. \<open>account_validity_startup_job_max_delta\<close> is a Python
  float, \<open>period * 10.0 / 100.0\<close>; it is kept as the exact quotient.
\<close>

record ('t, 'm) AccountValidityConfig =
  account_validity_enabled :: json
  account_validity_renew_by_email_enabled :: bool
  account_validity_account_renewed_template :: 't
  account_validity_account_previously_renewed_template :: 't
  account_validity_invalid_token_template :: 't
  account_validity_modules :: "'m list"
  account_validity_period :: "int option"
  account_validity_renew_at :: "int option"
  account_validity_renew_email_subject :: "json option"
  account_validity_startup_job_max_delta :: "real option"

text \<open>
  The message \<open>Can't send renewal emails without 'public_baseurl'\<close>; a string literal
  cannot end in an apostrophe, so the last character is appended.
\<close>

definition no_public_baseurl :: string where
  "no_public_baseurl = ''Can't send renewal emails without 'public_baseurl'' @ [CHR 0x27]"

text \<open>The calls to \<open>logger\<close> do not change what is returned or raised and are left out.\<close>

definition read_legacy_config ::
    "('t, 'm) Config \<Rightarrow> JsonDict \<Rightarrow> ('t, 'm) AccountValidityConfig
       \<Rightarrow> error + ('t, 'm) AccountValidityConfig" where
  \<open>read_legacy_config cfg account_validity_config self0 =
     (let self1 = self0\<lparr>
            account_validity_enabled :=
              dict_get account_validity_config ''enabled'' (JBool False),
            account_validity_renew_by_email_enabled :=
              dict_in ''renew_at'' account_validity_config\<rparr> in
      result_bind
        (if truthy (account_validity_enabled self1) then
           result_bind
             (if dict_in ''period'' account_validity_config
              then result_bind (dict_item account_validity_config ''period'')
                     (parse_duration cfg)
              else Inl (ConfigError
                     '''period' is required when using account validity'' None))
             (\<lambda>period.
           let self2 = self1\<lparr>account_validity_period := Some period\<rparr> in
           result_bind
             (if dict_in ''renew_at'' account_validity_config
              then result_bind
                     (result_bind (dict_item account_validity_config ''renew_at'')
                        (parse_duration cfg))
                     (\<lambda>renew_at. Inr (self2\<lparr>account_validity_renew_at := Some renew_at\<rparr>))
              else Inr self2)
             (\<lambda>self3.
           result_bind
             (if dict_in ''renew_email_subject'' account_validity_config
              then dict_item account_validity_config ''renew_email_subject''
              else Inr (JStr ''Renew your %(app)s account''))
             (\<lambda>subject.
           Inr (self3\<lparr>
                  account_validity_renew_email_subject := Some subject,
                  account_validity_startup_job_max_delta :=
                    Some (real_of_int period * 10 / 100)\<rparr>))))
         else Inr self1)
        (\<lambda>self4.
      if account_validity_renew_by_email_enabled self4 \<and> \<not> truthy (public_baseurl cfg)
      then Inl (ConfigError no_public_baseurl None)
      else Inr self4))\<close>




section \<open>Reference collaborators\<close>

text \<open>
  A homeserver whose collaborators answer from fixed tables and whose state is the list
  of collaborator calls made so far, in order: running a servlet against it shows which
  collaborators were reached, and with what arguments. A request carries its parsed body
  (or the error that parsing raises) and an access token.
\<close>

datatype call =
    Call_get_room json
  | Call_get_user_by_req string
  | Call_get_appservice_by_req string
  | Call_is_server_admin UserID
  | Call_get_association RoomAlias
  | Call_create_association Requester RoomAlias json json
  | Call_delete_association Requester RoomAlias
  | Call_delete_appservice_association ApplicationService RoomAlias
  | Call_edit_published_room_list Requester string json
  | Call_edit_published_appservice_room_list string string string json

record Request =
  body :: "error + JsonDict"
  access_token :: string

definition sigil_from_string :: "string \<Rightarrow> error + RoomAlias" where
  "sigil_from_string s =
     (case s of
        [] \<Rightarrow> Inl (SynapseError 400 ''Expected RoomAlias string to start with #''
                     (Some (OtherCode ''M_INVALID_PARAM'')))
      | c # cs \<Rightarrow>
          if c = CHR ''#'' then Inr (RoomAlias s)
          else Inl (SynapseError 400 ''Expected RoomAlias string to start with #''
                      (Some (OtherCode ''M_INVALID_PARAM''))))"

definition recording_hs ::
    "(json \<times> Room) list \<Rightarrow> (string \<times> Requester) list \<Rightarrow> (string \<times> ApplicationService) list
       \<Rightarrow> UserID list \<Rightarrow> (Request, call list) HomeServer" where
  "recording_hs rooms users services admins = \<lparr>
     parse_json_object_from_request = body,
     from_string = sigil_from_string,
     get_room = (\<lambda>room_id w. (Inr (map_of rooms room_id), w @ [Call_get_room room_id])),
     get_user_by_req = (\<lambda>request w.
       (case map_of users (access_token request) of
          None \<Rightarrow> Inl (InvalidClientCredentialsError ''Invalid access token'')
        | Some r \<Rightarrow> Inr r,
        w @ [Call_get_user_by_req (access_token request)])),
     get_appservice_by_req = (\<lambda>request w.
       (case map_of services (access_token request) of
          None \<Rightarrow> Inl (InvalidClientCredentialsError ''Invalid access token'')
        | Some a \<Rightarrow> Inr a,
        w @ [Call_get_appservice_by_req (access_token request)])),
     is_server_admin = (\<lambda>u w. (Inr (u \<in> set admins), w @ [Call_is_server_admin u])),
     get_association = (\<lambda>a w. (Inl (NotFoundError ''Room alias not found''),
        w @ [Call_get_association a])),
     create_association = (\<lambda>r a room_id servers w.
        (Inr (), w @ [Call_create_association r a room_id servers])),
     delete_association = (\<lambda>r a w. (Inr (), w @ [Call_delete_association r a])),
     delete_appservice_association = (\<lambda>service a w.
        (Inr (), w @ [Call_delete_appservice_association service a])),
     edit_published_room_list = (\<lambda>r room_id visibility w.
        (Inr (), w @ [Call_edit_published_room_list r room_id visibility])),
     edit_published_appservice_room_list = (\<lambda>appservice_id network_id room_id visibility w.
        (Inr (), w @ [Call_edit_published_appservice_room_list
                        appservice_id network_id room_id visibility]))\<rparr>"

text \<open>Two users (one of them a server admin), one application service, one room.\<close>

definition alice :: Requester where
  "alice = \<lparr>user = UserID ''@alice:example.org'', app_service = None\<rparr>"

definition admin :: Requester where
  "admin = \<lparr>user = UserID ''@admin:example.org'', app_service = None\<rparr>"

definition bridge :: ApplicationService where
  "bridge = \<lparr>id' = ''irc-bridge'', url = ''http://localhost:9999''\<rparr>"

definition bridge_bot :: Requester where
  "bridge_bot = \<lparr>user = UserID ''@irc:example.org'', app_service = Some bridge\<rparr>"

definition example_hs :: "(Request, call list) HomeServer" where
  "example_hs =
     recording_hs
       [(JStr ''!lobby:example.org'', \<lparr>is_public = True\<rparr>),
        (JStr ''!attic:example.org'', \<lparr>is_public = False\<rparr>)]
       [(''alice_token'', alice), (''admin_token'', admin), (''bridge_token'', bridge_bot)]
       [(''bridge_token'', bridge)]
       [UserID ''@admin:example.org'']"

text \<open>
  A configuration environment: durations are integers of milliseconds, a module
  descriptor loads to the name under its \<open>module\<close> key, and the three templates load to
  their file names.
\<close>

definition example_parse_duration :: "json \<Rightarrow> error + int" where
  "example_parse_duration v =
     (case v of JInt n \<Rightarrow> Inr n | _ \<Rightarrow> Inl (OtherException ''TypeError''))"

definition example_load_module :: "JsonDict \<Rightarrow> string list \<Rightarrow> error + string" where
  "example_load_module provider path =
     (case map_of provider ''module'' of
        Some (JStr name) \<Rightarrow> Inr name
      | _ \<Rightarrow> Inl (ConfigError ''expected a string'' (Some (path @ [''module'']))))"

definition example_read_templates :: "string list \<Rightarrow> error + string \<times> string \<times> string" where
  "example_read_templates filenames =
     (case filenames of
        [a, b, c] \<Rightarrow> Inr (a, b, c)
      | _ \<Rightarrow> Inl (OtherException ''ValueError''))"

definition example_config :: "json \<Rightarrow> (string, string) Config" where
  "example_config baseurl = \<lparr>
     read_templates = example_read_templates,
     parse_duration = example_parse_duration,
     load_module = example_load_module,
     public_baseurl = baseurl\<rparr>"

text \<open>
  The object as \<open>read_config\<close> has it when it turns to the \<open>account_validity\<close> value, in
  that environment.
\<close>

definition example_self :: "(string, string) AccountValidityConfig" where
  "example_self = \<lparr>
     account_validity_enabled = JBool False,
     account_validity_renew_by_email_enabled = False,
     account_validity_account_renewed_template = ''account_renewed.html'',
     account_validity_account_previously_renewed_template = ''account_previously_renewed.html'',
     account_validity_invalid_token_template = ''invalid_token.html'',
     account_validity_modules = [],
     account_validity_period = None,
     account_validity_renew_at = None,
     account_validity_renew_email_subject = None,
     account_validity_startup_job_max_delta = None\<rparr>"

section \<open>Running a coroutine step by step\<close>

lemma io_bind_Inr: "m w = (Inr a, w') \<Longrightarrow> io_bind m f w = f a w'"
  by (simp add: io_bind_def)


lemma io_bind_lift_Inr: "io_bind (io_lift (Inr a)) f = f a"
  by (rule ext) (simp add: io_bind_def io_lift_def)


lemma io_bind_return: "io_bind (io_return a) f = f a"
  by (rule ext) (simp add: io_bind_def io_return_def)

lemma io_bind_raise: "io_bind (io_raise e) f = io_raise e"
  by (rule ext) (simp add: io_bind_def io_raise_def)

lemma dict_item_Some: "map_of d k = Some v \<Longrightarrow> dict_item d k = Inr v"
  by (simp add: dict_item_def)

lemma dict_in_Some: "map_of d k = Some v \<Longrightarrow> dict_in k d"
  by (simp add: dict_in_def)

section \<open>Creating an alias: PUT /directory/room/<room_alias>\<close>

text \<open>
  The handler up to the room check: the alias parses, the body parses and has a
  \<open>room_id\<close>, and the store has no such room. Whatever \<open>servers\<close> is, the handler raises
  right after \<open>get_room\<close>.
\<close>

lemma on_PUT_no_room:
  assumes "from_string hs room_alias = Inr a"
      and "parse_json_object_from_request hs request = Inr content"
      and "map_of content ''room_id'' = Some room_id"
      and "get_room hs room_id w = (Inr None, w')"
  shows "ClientDirectoryServer_on_PUT hs request room_alias w =
           (Inl (SynapseError 400 ''Room does not exist'' None), w')"
proof -
  have "\<exists>servers. (if dict_in ''servers'' content
                     then dict_item content ''servers'' else Inr JNull) = Inr servers"
    by (auto simp: dict_in_def dict_item_def)
  then obtain servers where s:
    "(if dict_in ''servers'' content
      then dict_item content ''servers'' else Inr JNull) = Inr servers" ..
  show ?thesis
    unfolding ClientDirectoryServer_on_PUT_def
    using assms s
    by (simp add: io_bind_lift_Inr dict_in_Some dict_item_Some io_bind_Inr io_raise_def)
qed

text \<open>
  C4. A PUT on the alias endpoint that reaches the room check (the alias in the path
  parses, the body parses and names a \<open>room_id\<close>) and whose room the store does not have
  (\<open>get_room\<close> returns \<open>None\<close>) fails with \<open>SynapseError(400, "Room does not exist")\<close>, and
  the association is not created: the result and the state left behind are those of the
  room lookup alone, whatever \<open>create_association\<close> would have done.
\<close>

theorem on_PUT_room_does_not_exist:
  assumes "from_string hs room_alias = Inr a"
      and "parse_json_object_from_request hs request = Inr content"
      and "map_of content ''room_id'' = Some room_id"
      and "get_room hs room_id w = (Inr None, w')"
  shows "ClientDirectoryServer_on_PUT (hs\<lparr>create_association := handler\<rparr>)
           request room_alias w =
         (Inl (SynapseError 400 ''Room does not exist'' None), w')"
  using assms by (intro on_PUT_no_room) simp_all

theorem on_PUT_room_does_not_exist_witness:
  "get_room example_hs (JStr ''!cellar:example.org'') [] =
     (Inr None, [Call_get_room (JStr ''!cellar:example.org'')]) \<and>
   ClientDirectoryServer_on_PUT
     (example_hs\<lparr>create_association := (\<lambda>r a i s. io_raise (OtherException ''handler''))\<rparr>)
     \<lparr>body = Inr [(''room_id'', JStr ''!cellar:example.org'')], access_token = ''alice_token''\<rparr>
     ''#cellar:example.org'' []
   = (Inl (SynapseError 400 ''Room does not exist'' None),
      [Call_get_room (JStr ''!cellar:example.org'')])"
proof -
  let ?req = "\<lparr>body = Inr [(''room_id'', JStr ''!cellar:example.org'')],
                access_token = ''alice_token''\<rparr>"
  have a: "from_string example_hs ''#cellar:example.org'' = Inr (RoomAlias ''#cellar:example.org'')"
    by (simp add: example_hs_def recording_hs_def sigil_from_string_def)
  have b: "parse_json_object_from_request example_hs ?req
             = Inr [(''room_id'', JStr ''!cellar:example.org'')]"
    by (simp add: example_hs_def recording_hs_def)
  have c: "map_of [(''room_id'', JStr ''!cellar:example.org'')] ''room_id''
             = Some (JStr ''!cellar:example.org'')"
    by simp
  have d: "get_room example_hs (JStr ''!cellar:example.org'') [] =
             (Inr None, [Call_get_room (JStr ''!cellar:example.org'')])"
    by (simp add: example_hs_def recording_hs_def)
  show ?thesis
    using d on_PUT_room_does_not_exist [OF a b c d] by simp
qed

text \<open>
  C8. The room check comes before authentication: under the same conditions as C4 the
  handler raises \<open>SynapseError(400, "Room does not exist")\<close> whatever the authentication
  and authorization collaborators are (\<open>get_user_by_req\<close>, \<open>is_server_admin\<close>,
  \<open>get_appservice_by_req\<close>, and \<open>create_association\<close>, which authorizes the requester), and
  the state is the one the room lookup left: none of them ran.
\<close>

theorem on_PUT_room_check_precedes_auth:
  assumes "from_string hs room_alias = Inr a"
      and "parse_json_object_from_request hs request = Inr content"
      and "map_of content ''room_id'' = Some room_id"
      and "get_room hs room_id w = (Inr None, w')"
  shows "ClientDirectoryServer_on_PUT
           (hs\<lparr>get_user_by_req := auth, is_server_admin := adm,
               get_appservice_by_req := appservice_auth, create_association := handler\<rparr>)
           request room_alias w =
         (Inl (SynapseError 400 ''Room does not exist'' None), w')"
  using assms by (intro on_PUT_no_room) simp_all

theorem on_PUT_room_check_precedes_auth_witness:
  "ClientDirectoryServer_on_PUT
     (example_hs\<lparr>get_user_by_req := (\<lambda>r. io_return admin),
                 is_server_admin := (\<lambda>u. io_return True),
                 get_appservice_by_req := (\<lambda>r. io_return bridge),
                 create_association := (\<lambda>r a i s. io_return ())\<rparr>)
     \<lparr>body = Inr [(''room_id'', JStr ''!cellar:example.org'')], access_token = ''nobody''\<rparr>
     ''#cellar:example.org'' []
   = (Inl (SynapseError 400 ''Room does not exist'' None),
      [Call_get_room (JStr ''!cellar:example.org'')])"
proof -
  let ?req = "\<lparr>body = Inr [(''room_id'', JStr ''!cellar:example.org'')],
                access_token = ''nobody''\<rparr>"
  have a: "from_string example_hs ''#cellar:example.org'' = Inr (RoomAlias ''#cellar:example.org'')"
    by (simp add: example_hs_def recording_hs_def sigil_from_string_def)
  have b: "parse_json_object_from_request example_hs ?req
             = Inr [(''room_id'', JStr ''!cellar:example.org'')]"
    by (simp add: example_hs_def recording_hs_def)
  have c: "map_of [(''room_id'', JStr ''!cellar:example.org'')] ''room_id''
             = Some (JStr ''!cellar:example.org'')"
    by simp
  have d: "get_room example_hs (JStr ''!cellar:example.org'') [] =
             (Inr None, [Call_get_room (JStr ''!cellar:example.org'')])"
    by (simp add: example_hs_def recording_hs_def)
  show ?thesis
    using on_PUT_room_check_precedes_auth [OF a b c d] by simp
qed

text \<open>
  C9. A PUT on the alias endpoint whose parsed body has no \<open>room_id\<close> key fails with
  \<open>SynapseError(400, 'Missing params: ["room_id"]', errcode=Codes.BAD_JSON)\<close>. The room
  store, authentication and the directory handler are not consulted: the result is the
  same for every choice of them, and the state is unchanged.
\<close>

theorem on_PUT_missing_room_id:
  assumes "from_string hs room_alias = Inr a"
      and "parse_json_object_from_request hs request = Inr content"
      and "\<not> dict_in ''room_id'' content"
  shows \<open>ClientDirectoryServer_on_PUT
           (hs\<lparr>get_room := store, get_user_by_req := auth, create_association := handler\<rparr>)
           request room_alias w =
         (Inl (SynapseError 400 ''Missing params: ["room_id"]'' (Some BAD_JSON)), w)\<close>
  unfolding ClientDirectoryServer_on_PUT_def
  using assms by (simp add: io_bind_lift_Inr io_raise_def)

theorem on_PUT_missing_room_id_witness:
  \<open>from_string example_hs ''#lobby:example.org'' = Inr (RoomAlias ''#lobby:example.org'') \<and>
   parse_json_object_from_request example_hs
     \<lparr>body = Inr [(''servers'', JList [])], access_token = ''nobody''\<rparr>
     = Inr [(''servers'', JList [])] \<and>
   \<not> dict_in ''room_id'' [(''servers'', JList [])] \<and>
   ClientDirectoryServer_on_PUT
     (example_hs\<lparr>get_room := (\<lambda>r. io_raise (OtherException ''store'')),
                 get_user_by_req := (\<lambda>r. io_raise (OtherException ''auth'')),
                 create_association := (\<lambda>r a i s. io_raise (OtherException ''handler''))\<rparr>)
     \<lparr>body = Inr [(''servers'', JList [])], access_token = ''nobody''\<rparr>
     ''#lobby:example.org'' []
   = (Inl (SynapseError 400 ''Missing params: ["room_id"]'' (Some BAD_JSON)), [])\<close>
proof -
  have a: "from_string example_hs ''#lobby:example.org'' = Inr (RoomAlias ''#lobby:example.org'')"
    by (simp add: example_hs_def recording_hs_def sigil_from_string_def)
  have b: "parse_json_object_from_request example_hs
     \<lparr>body = Inr [(''servers'', JList [])], access_token = ''nobody''\<rparr>
     = Inr [(''servers'', JList [])]"
    by (simp add: example_hs_def recording_hs_def)
  have c: "\<not> dict_in ''room_id'' [(''servers'', JList [])]"
    by (simp add: dict_in_def)
  show ?thesis
    using a b c on_PUT_missing_room_id [OF a b c] by simp
qed

section \<open>Deleting an alias: DELETE /directory/room/<room_alias>\<close>






section \<open>The room lists\<close>

text \<open>
  C5. GET on the global list endpoint, once the store has answered (\<open>get_room\<close> returned
  \<open>room\<close>): it raises \<open>NotFoundError\<close> exactly when \<open>room\<close> is \<open>None\<close>, and otherwise returns
  200 with visibility \<open>"public"\<close> when the room's \<open>is_public\<close> is set and \<open>"private"\<close> when
  it is not. Nothing but the room's own \<open>is_public\<close> is read: the state is the one the room
  lookup left.
\<close>

theorem on_GET_visibility:
  assumes "get_room hs (JStr room_id) w = (Inr room, w')"
  shows "ClientDirectoryListServer_on_GET hs request room_id w =
           (case room of
              None \<Rightarrow> (Inl (NotFoundError ''Unknown room''), w')
            | Some r \<Rightarrow>
                (Inr (200, [(''visibility'',
                             JStr (if is_public r then ''public'' else ''private''))]), w'))
         \<and> ((\<exists>m. fst (ClientDirectoryListServer_on_GET hs request room_id w)
                    = Inl (NotFoundError m)) \<longleftrightarrow> room = None)"
  unfolding ClientDirectoryListServer_on_GET_def
  using assms
  by (simp add: io_bind_Inr io_raise_def io_return_def split: option.splits)

theorem on_GET_visibility_witness:
  "ClientDirectoryListServer_on_GET example_hs
     \<lparr>body = Inr [], access_token = ''''\<rparr> ''!lobby:example.org'' []
     = (Inr (200, [(''visibility'', JStr ''public'')]),
        [Call_get_room (JStr ''!lobby:example.org'')]) \<and>
   ClientDirectoryListServer_on_GET example_hs
     \<lparr>body = Inr [], access_token = ''''\<rparr> ''!attic:example.org'' []
     = (Inr (200, [(''visibility'', JStr ''private'')]),
        [Call_get_room (JStr ''!attic:example.org'')]) \<and>
   ClientDirectoryListServer_on_GET example_hs
     \<lparr>body = Inr [], access_token = ''''\<rparr> ''!cellar:example.org'' []
     = (Inl (NotFoundError ''Unknown room''),
        [Call_get_room (JStr ''!cellar:example.org'')])"
proof -
  have a: "get_room example_hs (JStr ''!lobby:example.org'') [] =
             (Inr (Some \<lparr>is_public = True\<rparr>), [Call_get_room (JStr ''!lobby:example.org'')])"
    by (simp add: example_hs_def recording_hs_def)
  have b: "get_room example_hs (JStr ''!attic:example.org'') [] =
             (Inr (Some \<lparr>is_public = False\<rparr>), [Call_get_room (JStr ''!attic:example.org'')])"
    by (simp add: example_hs_def recording_hs_def)
  have c: "get_room example_hs (JStr ''!cellar:example.org'') [] =
             (Inr None, [Call_get_room (JStr ''!cellar:example.org'')])"
    by (simp add: example_hs_def recording_hs_def)
  show ?thesis
    using on_GET_visibility [OF a] on_GET_visibility [OF b] on_GET_visibility [OF c]
    by simp
qed

text \<open>
  C1. The authorization of an edit of the appservice room list, once the requester is
  known and \<open>is_server_admin\<close> has answered. If the requester has an \<open>app_service\<close>, the
  edit runs with that service's id. Otherwise, if the requester is a server admin and
  the visibility is the string \<open>"private"\<close>, the edit runs with the id \<open>""\<close>. Otherwise
  the handler raises \<open>AuthError(403)\<close> and no edit runs (the state is the one the two
  authentication calls left). In particular a requester without an \<open>app_service\<close> asking
  for \<open>"public"\<close> is denied whether admin or not, whatever the edit operation is.
\<close>

theorem edit_appservice_room_visibility_precedence:
  assumes "get_user_by_req hs request w = (Inr requester, w1)"
      and "is_server_admin hs (user requester) w1 = (Inr is_admin, w2)"
  shows "edit_appservice_room_visibility hs request network_id room_id visibility w =
           (case app_service requester of
              Some a \<Rightarrow>
                io_bind (edit_published_appservice_room_list hs (id' a)
                           network_id room_id visibility)
                  (\<lambda>_. io_return (200, [])) w2
            | None \<Rightarrow>
                if is_admin \<and> visibility = JStr ''private''
                then io_bind (edit_published_appservice_room_list hs ''''
                                network_id room_id visibility)
                       (\<lambda>_. io_return (200, [])) w2
                else (Inl (AuthError 403
                       ''Only appservices can edit the appservice published room list''), w2))
         \<and> (app_service requester = None \<and> visibility = JStr ''public'' \<longrightarrow>
              edit_appservice_room_visibility
                (hs\<lparr>edit_published_appservice_room_list := handler\<rparr>)
                request network_id room_id visibility w =
              (Inl (AuthError 403
                 ''Only appservices can edit the appservice published room list''), w2))"
  unfolding edit_appservice_room_visibility_def
  using assms
  by (auto simp: io_bind_Inr io_bind_return io_bind_raise io_raise_def split: option.splits)

theorem edit_appservice_room_visibility_precedence_witness:
  "edit_appservice_room_visibility example_hs
     \<lparr>body = Inr [], access_token = ''bridge_token''\<rparr> ''irc'' ''!lobby:example.org''
     (JStr ''public'') []
   = (Inr (200, []),
      [Call_get_user_by_req ''bridge_token'',
       Call_is_server_admin (UserID ''@irc:example.org''),
       Call_edit_published_appservice_room_list ''irc-bridge'' ''irc'' ''!lobby:example.org''
         (JStr ''public'')]) \<and>
   edit_appservice_room_visibility example_hs
     \<lparr>body = Inr [], access_token = ''admin_token''\<rparr> ''irc'' ''!lobby:example.org''
     (JStr ''private'') []
   = (Inr (200, []),
      [Call_get_user_by_req ''admin_token'',
       Call_is_server_admin (UserID ''@admin:example.org''),
       Call_edit_published_appservice_room_list '''' ''irc'' ''!lobby:example.org''
         (JStr ''private'')]) \<and>
   edit_appservice_room_visibility example_hs
     \<lparr>body = Inr [], access_token = ''admin_token''\<rparr> ''irc'' ''!lobby:example.org''
     (JStr ''public'') []
   = (Inl (AuthError 403 ''Only appservices can edit the appservice published room list''),
      [Call_get_user_by_req ''admin_token'',
       Call_is_server_admin (UserID ''@admin:example.org'')]) \<and>
   edit_appservice_room_visibility example_hs
     \<lparr>body = Inr [], access_token = ''alice_token''\<rparr> ''irc'' ''!lobby:example.org''
     (JStr ''private'') []
   = (Inl (AuthError 403 ''Only appservices can edit the appservice published room list''),
      [Call_get_user_by_req ''alice_token'',
       Call_is_server_admin (UserID ''@alice:example.org'')])"
proof -
  let ?bridge = "\<lparr>body = Inr [], access_token = ''bridge_token''\<rparr>"
  let ?admin = "\<lparr>body = Inr [], access_token = ''admin_token''\<rparr>"
  let ?alice = "\<lparr>body = Inr [], access_token = ''alice_token''\<rparr>"
  have b1: "get_user_by_req example_hs ?bridge [] =
              (Inr bridge_bot, [Call_get_user_by_req ''bridge_token''])"
    by (simp add: example_hs_def recording_hs_def)
  have b2: "is_server_admin example_hs (user bridge_bot) [Call_get_user_by_req ''bridge_token'']
              = (Inr False, [Call_get_user_by_req ''bridge_token'',
                             Call_is_server_admin (UserID ''@irc:example.org'')])"
    by (simp add: example_hs_def recording_hs_def bridge_bot_def)
  have a1: "get_user_by_req example_hs ?admin [] =
              (Inr admin, [Call_get_user_by_req ''admin_token''])"
    by (simp add: example_hs_def recording_hs_def)
  have a2: "is_server_admin example_hs (user admin) [Call_get_user_by_req ''admin_token'']
              = (Inr True, [Call_get_user_by_req ''admin_token'',
                            Call_is_server_admin (UserID ''@admin:example.org'')])"
    by (simp add: example_hs_def recording_hs_def admin_def)
  have u1: "get_user_by_req example_hs ?alice [] =
              (Inr alice, [Call_get_user_by_req ''alice_token''])"
    by (simp add: example_hs_def recording_hs_def)
  have u2: "is_server_admin example_hs (user alice) [Call_get_user_by_req ''alice_token'']
              = (Inr False, [Call_get_user_by_req ''alice_token'',
                             Call_is_server_admin (UserID ''@alice:example.org'')])"
    by (simp add: example_hs_def recording_hs_def alice_def)
  have edit: "\<And>i n r v w. edit_published_appservice_room_list example_hs i n r v w =
                (Inr (), w @ [Call_edit_published_appservice_room_list i n r v])"
    by (simp add: example_hs_def recording_hs_def)
  have c1: "app_service bridge_bot = Some bridge" "id' bridge = ''irc-bridge''"
    by (simp_all add: bridge_bot_def bridge_def)
  have c2: "app_service admin = None" "app_service alice = None"
    by (simp_all add: admin_def alice_def)
  show ?thesis
    using edit_appservice_room_visibility_precedence [OF b1 b2,
            of "''irc''" "''!lobby:example.org''" "JStr ''public''"]
          edit_appservice_room_visibility_precedence [OF a1 a2,
            of "''irc''" "''!lobby:example.org''" "JStr ''private''"]
          edit_appservice_room_visibility_precedence [OF a1 a2,
            of "''irc''" "''!lobby:example.org''" "JStr ''public''"]
          edit_appservice_room_visibility_precedence [OF u1 u2,
            of "''irc''" "''!lobby:example.org''" "JStr ''private''"]
    by (simp add: c1 c2 edit io_bind_def io_return_def)
qed

text \<open>
  C10. On both list endpoints a PUT whose parsed body has no \<open>visibility\<close> key runs the
  edit with \<open>"public"\<close>; a DELETE runs the same edit with \<open>"private"\<close>, and is the PUT of a
  body whose \<open>visibility\<close> is \<open>"private"\<close>.
\<close>

theorem list_edit_default_and_delete:
  "(parse_json_object_from_request hs request = Inr content
      \<and> \<not> dict_in ''visibility'' content \<longrightarrow>
      ClientDirectoryListServer_on_PUT hs request room_id =
        io_bind (get_user_by_req hs request) (\<lambda>requester.
        io_bind (edit_published_room_list hs requester room_id (JStr ''public'')) (\<lambda>_.
        io_return (200, [])))
      \<and> ClientAppserviceDirectoryListServer_on_PUT hs request network_id room_id =
        edit_appservice_room_visibility hs request network_id room_id (JStr ''public''))
   \<and> (parse_json_object_from_request hs request = Inr content
        \<and> map_of content ''visibility'' = Some (JStr ''private'') \<longrightarrow>
      ClientDirectoryListServer_on_DELETE hs request room_id =
        ClientDirectoryListServer_on_PUT hs request room_id
      \<and> ClientAppserviceDirectoryListServer_on_DELETE hs request network_id room_id =
        ClientAppserviceDirectoryListServer_on_PUT hs request network_id room_id)
   \<and> ClientDirectoryListServer_on_DELETE hs request room_id =
        io_bind (get_user_by_req hs request) (\<lambda>requester.
        io_bind (edit_published_room_list hs requester room_id (JStr ''private'')) (\<lambda>_.
        io_return (200, [])))
   \<and> ClientAppserviceDirectoryListServer_on_DELETE hs request network_id room_id =
        edit_appservice_room_visibility hs request network_id room_id (JStr ''private'')"
  by (simp add: ClientDirectoryListServer_on_PUT_def ClientDirectoryListServer_on_DELETE_def
        ClientAppserviceDirectoryListServer_on_PUT_def
        ClientAppserviceDirectoryListServer_on_DELETE_def
        io_bind_lift_Inr dict_get_def dict_in_def)

theorem list_edit_default_and_delete_witness:
  "ClientDirectoryListServer_on_PUT example_hs
     \<lparr>body = Inr [], access_token = ''alice_token''\<rparr> ''!attic:example.org'' []
   = (Inr (200, []),
      [Call_get_user_by_req ''alice_token'',
       Call_edit_published_room_list alice ''!attic:example.org'' (JStr ''public'')]) \<and>
   ClientDirectoryListServer_on_DELETE example_hs
     \<lparr>body = Inr [], access_token = ''alice_token''\<rparr> ''!attic:example.org'' []
   = (Inr (200, []),
      [Call_get_user_by_req ''alice_token'',
       Call_edit_published_room_list alice ''!attic:example.org'' (JStr ''private'')]) \<and>
   ClientDirectoryListServer_on_PUT example_hs
     \<lparr>body = Inr [(''visibility'', JStr ''private'')], access_token = ''alice_token''\<rparr>
     ''!attic:example.org'' []
   = ClientDirectoryListServer_on_DELETE example_hs
     \<lparr>body = Inr [(''visibility'', JStr ''private'')], access_token = ''alice_token''\<rparr>
     ''!attic:example.org'' [] \<and>
   ClientAppserviceDirectoryListServer_on_PUT example_hs
     \<lparr>body = Inr [], access_token = ''bridge_token''\<rparr> ''irc'' ''!attic:example.org'' []
   = (Inr (200, []),
      [Call_get_user_by_req ''bridge_token'',
       Call_is_server_admin (UserID ''@irc:example.org''),
       Call_edit_published_appservice_room_list ''irc-bridge'' ''irc'' ''!attic:example.org''
         (JStr ''public'')])"
proof -
  let ?alice = "\<lparr>body = Inr [], access_token = ''alice_token''\<rparr>"
  let ?alice' = "\<lparr>body = Inr [(''visibility'', JStr ''private'')],
                   access_token = ''alice_token''\<rparr>"
  let ?bridge = "\<lparr>body = Inr [], access_token = ''bridge_token''\<rparr>"
  have p1: "parse_json_object_from_request example_hs ?alice = Inr []
              \<and> \<not> dict_in ''visibility'' []"
    by (simp add: example_hs_def recording_hs_def dict_in_def)
  have p2: "parse_json_object_from_request example_hs ?alice'
              = Inr [(''visibility'', JStr ''private'')]
            \<and> map_of [(''visibility'', JStr ''private'')] ''visibility''
                = Some (JStr ''private'')"
    by (simp add: example_hs_def recording_hs_def)
  have p3: "parse_json_object_from_request example_hs ?bridge = Inr []
              \<and> \<not> dict_in ''visibility'' []"
    by (simp add: example_hs_def recording_hs_def dict_in_def)
  have u: "\<And>w. get_user_by_req example_hs ?alice w =
              (Inr alice, w @ [Call_get_user_by_req ''alice_token''])"
          "\<And>w. get_user_by_req example_hs ?bridge w =
              (Inr bridge_bot, w @ [Call_get_user_by_req ''bridge_token''])"
    by (simp_all add: example_hs_def recording_hs_def)
  have e: "\<And>r i v w. edit_published_room_list example_hs r i v w =
              (Inr (), w @ [Call_edit_published_room_list r i v])"
          "\<And>i n r v w. edit_published_appservice_room_list example_hs i n r v w =
              (Inr (), w @ [Call_edit_published_appservice_room_list i n r v])"
          "\<And>x w. is_server_admin example_hs x w =
              (Inr (x \<in> set [UserID ''@admin:example.org'']), w @ [Call_is_server_admin x])"
    by (simp_all add: example_hs_def recording_hs_def)
  have b: "app_service bridge_bot = Some bridge" "id' bridge = ''irc-bridge''"
          "user bridge_bot = UserID ''@irc:example.org''"
    by (simp_all add: bridge_bot_def bridge_def)
  have put: "ClientDirectoryListServer_on_PUT example_hs ?alice ''!attic:example.org'' =
        io_bind (get_user_by_req example_hs ?alice) (\<lambda>requester.
        io_bind (edit_published_room_list example_hs requester ''!attic:example.org''
                   (JStr ''public'')) (\<lambda>_.
        io_return (200, [])))"
    using list_edit_default_and_delete
            [where hs = example_hs and request = ?alice and content = "[]"
               and room_id = "''!attic:example.org''"] p1
    by blast
  have del: "ClientDirectoryListServer_on_DELETE example_hs ?alice ''!attic:example.org'' =
        io_bind (get_user_by_req example_hs ?alice) (\<lambda>requester.
        io_bind (edit_published_room_list example_hs requester ''!attic:example.org''
                   (JStr ''private'')) (\<lambda>_.
        io_return (200, [])))"
    using list_edit_default_and_delete
            [where hs = example_hs and request = ?alice and content = "[]"
               and room_id = "''!attic:example.org''"]
    by blast
  have same: "ClientDirectoryListServer_on_PUT example_hs ?alice' ''!attic:example.org''
            = ClientDirectoryListServer_on_DELETE example_hs ?alice' ''!attic:example.org''"
    using list_edit_default_and_delete
            [where hs = example_hs and request = ?alice'
               and content = "[(''visibility'', JStr ''private'')]"
               and room_id = "''!attic:example.org''"] p2
    by simp
  have as_put: "ClientAppserviceDirectoryListServer_on_PUT example_hs ?bridge
                  ''irc'' ''!attic:example.org'' =
        edit_appservice_room_visibility example_hs ?bridge ''irc'' ''!attic:example.org''
          (JStr ''public'')"
    using list_edit_default_and_delete
            [where hs = example_hs and request = ?bridge and content = "[]"
               and room_id = "''!attic:example.org''" and network_id = "''irc''"] p3
    by blast
  show ?thesis
    unfolding put del same as_put
    by (simp add: u e b io_bind_def io_return_def edit_appservice_room_visibility_def)
qed

section \<open>Reading the legacy account validity configuration\<close>

lemma result_bind_Inr: "result_bind (Inr a) f = f a"
  by (simp add: result_bind_def)

lemma result_bind_Inl: "result_bind (Inl e) f = Inl e"
  by (simp add: result_bind_def)

lemma period_message_neq: "'''period' is required when using account validity'' \<noteq> no_public_baseurl"
  by (simp add: no_public_baseurl_def)

lemma read_legacy_config_disabled:
  assumes "\<not> truthy (dict_get d ''enabled'' (JBool False))"
  shows "read_legacy_config cfg d self0 =
          (if dict_in ''renew_at'' d \<and> \<not> truthy (public_baseurl cfg)
           then Inl (ConfigError no_public_baseurl None)
           else Inr (self0\<lparr>
                  account_validity_enabled := dict_get d ''enabled'' (JBool False),
                  account_validity_renew_by_email_enabled := dict_in ''renew_at'' d\<rparr>))"
  using assms by (simp add: read_legacy_config_def result_bind_Inr)

text \<open>
  C7. In legacy mode, when \<open>enabled\<close> is true (any truthy value) and there is no \<open>period\<close>
  key, \<open>read_legacy_config\<close> raises
  \<open>ConfigError("'period' is required when using account validity")\<close>. When \<open>enabled\<close> is
  false or absent (any falsy value; the default is \<open>False\<close>), the result is determined by
  \<open>renew_at\<close> and \<open>public_baseurl\<close> alone: it is never that error, and the period is not
  read, since the result is the same whatever the \<open>period\<close> entry and whatever
  \<open>parse_duration\<close> does.
\<close>

theorem read_legacy_config_period_required:
  "(truthy (dict_get d ''enabled'' (JBool False)) \<and> \<not> dict_in ''period'' d \<longrightarrow>
      read_legacy_config cfg d self0 =
        Inl (ConfigError '''period' is required when using account validity'' None))
   \<and> (\<not> truthy (dict_get d ''enabled'' (JBool False)) \<longrightarrow>
        read_legacy_config cfg d self0 =
          (if dict_in ''renew_at'' d \<and> \<not> truthy (public_baseurl cfg)
           then Inl (ConfigError no_public_baseurl None)
           else Inr (self0\<lparr>
                  account_validity_enabled := dict_get d ''enabled'' (JBool False),
                  account_validity_renew_by_email_enabled := dict_in ''renew_at'' d\<rparr>))
        \<and> read_legacy_config cfg d self0 \<noteq>
            Inl (ConfigError '''period' is required when using account validity'' None)
        \<and> read_legacy_config (cfg\<lparr>parse_duration := pd\<rparr>) ((''period'', p) # d) self0 =
            read_legacy_config cfg d self0)"
proof (intro conjI impI)
  assume "truthy (dict_get d ''enabled'' (JBool False)) \<and> \<not> dict_in ''period'' d"
  then show "read_legacy_config cfg d self0 =
        Inl (ConfigError '''period' is required when using account validity'' None)"
    by (simp add: read_legacy_config_def result_bind_Inl)
next
  assume off: "\<not> truthy (dict_get d ''enabled'' (JBool False))"
  then show eq: "read_legacy_config cfg d self0 =
          (if dict_in ''renew_at'' d \<and> \<not> truthy (public_baseurl cfg)
           then Inl (ConfigError no_public_baseurl None)
           else Inr (self0\<lparr>
                  account_validity_enabled := dict_get d ''enabled'' (JBool False),
                  account_validity_renew_by_email_enabled := dict_in ''renew_at'' d\<rparr>))"
    by (rule read_legacy_config_disabled)
  show "read_legacy_config cfg d self0 \<noteq>
            Inl (ConfigError '''period' is required when using account validity'' None)"
    unfolding eq using period_message_neq by auto
  have "dict_get ((''period'', p) # d) ''enabled'' (JBool False)
          = dict_get d ''enabled'' (JBool False)"
       "dict_in ''renew_at'' ((''period'', p) # d) = dict_in ''renew_at'' d"
    by (simp_all add: dict_get_def dict_in_def)
  with off show "read_legacy_config (cfg\<lparr>parse_duration := pd\<rparr>) ((''period'', p) # d) self0 =
            read_legacy_config cfg d self0"
    by (simp add: read_legacy_config_disabled)
qed


theorem read_legacy_config_period_required_witness:
  "read_legacy_config (example_config (JStr ''https://example.org''))
     [(''enabled'', JBool True)] example_self
   = Inl (ConfigError '''period' is required when using account validity'' None) \<and>
   read_legacy_config (example_config (JStr ''https://example.org''))
     [(''enabled'', JBool False), (''period'', JStr ''soon'')] example_self
   = Inr example_self \<and>
   read_legacy_config (example_config (JStr ''https://example.org''))
     [(''period'', JStr ''soon'')] example_self
   = Inr example_self"
proof -
  let ?cfg = "example_config (JStr ''https://example.org'')"
  have on: "truthy (dict_get [(''enabled'', JBool True)] ''enabled'' (JBool False))
            \<and> \<not> dict_in ''period'' [(''enabled'', JBool True)]"
    by (simp add: dict_get_def dict_in_def)
  have off: "\<not> truthy (dict_get [(''enabled'', JBool False), (''period'', JStr ''soon'')]
                          ''enabled'' (JBool False))"
    by (simp add: dict_get_def)
  have absent: "\<not> truthy (dict_get [(''period'', JStr ''soon'')] ''enabled'' (JBool False))"
    by (simp add: dict_get_def)
  show ?thesis
    using read_legacy_config_period_required
            [where d = "[(''enabled'', JBool True)]" and cfg = ?cfg and ?self0.0 = example_self]
          read_legacy_config_period_required
            [where d = "[(''enabled'', JBool False), (''period'', JStr ''soon'')]"
               and cfg = ?cfg and ?self0.0 = example_self]
          read_legacy_config_period_required
            [where d = "[(''period'', JStr ''soon'')]" and cfg = ?cfg
               and ?self0.0 = example_self]
          on off absent
    by (simp add: dict_get_def dict_in_def example_self_def)
qed







section \<open>Reading the account validity configuration\<close>











end
